theory Spec2Isabelle
  imports Main "HOL-Library.Multiset"
begin

section \<open>The Stitch admin API client (api/stitch.go)\<close>

text \<open>
  The file binds five operations of a remote service to an injected transport. What it
  calls and does not define is a parameter of the model: the transport \<open>Client\<close>, the
  constant \<open>adminBaseURL\<close>, and the library functions of \<open>encoding/json\<close>, \<open>mime\<close> and
  \<open>unicode\<close>. An error raised by one of them is the constructor \<open>External\<close> applied to
  its text, so no collaborator can produce an error of this file's own kinds.
\<close>

subsection \<open>Formatting: fmt.Sprintf and the verb q\<close>

text \<open>
  \<open>Sprintf\<close> with string operands. The verb modelled is \<open>%s\<close>, the only one in the
  formats passed to it here, with Go's rendering of a missing operand and of operands
  left over; \<open>%%\<close> is a literal percent sign. An operand that is an error is passed as
  its \<open>Error()\<close> text, which is what the verb prints. Any other character after a percent
  sign is outside the fragment: the theorems about routes ask that \<open>adminBaseURL\<close>, which
  is spliced into the formats, holds no percent sign.
\<close>

fun extras :: "string list \<Rightarrow> string" where
  "extras [] = []"
| "extras [a] = ''string='' @ a"
| "extras (a # b # bs) = ''string='' @ a @ '', '' @ extras (b # bs)"

fun Sprintf :: "string \<Rightarrow> string list \<Rightarrow> string" where
  "Sprintf [] operands = (if operands = [] then [] else ''%!(EXTRA '' @ extras operands @ '')'')"
| "Sprintf (c # f) operands =
     (if c = CHR ''%'' then
        (case f of
           [] \<Rightarrow> ''%!(NOVERB)'' @ Sprintf [] operands
         | v # f' \<Rightarrow>
             if v = CHR ''s'' then
               (case operands of
                  [] \<Rightarrow> ''%!s(MISSING)'' @ Sprintf f' []
                | a # operands' \<Rightarrow> a @ Sprintf f' operands')
             else if v = CHR ''%'' then CHR ''%'' # Sprintf f' operands
             else
               (case operands of
                  [] \<Rightarrow> ''%!'' @ [v] @ ''(MISSING)'' @ Sprintf f' []
                | a # operands' \<Rightarrow> ''%!'' @ [v] @ ''(string='' @ a @ '')'' @ Sprintf f' operands'))
      else c # Sprintf f operands)"

text \<open>
  The verb \<open>%q\<close> on a string is \<open>strconv.Quote\<close>: the text between double quotes, with
  the quote and the backslash backslashed and every byte that is not printable escaped.
  A byte below \<open>utf8.RuneSelf\<close> (0x80) is a rune by itself and is escaped by
  \<open>appendEscapedRune\<close>. From 0x80 on, the library decodes a UTF-8 sequence and consults
  the Unicode tables; that step is the parameter \<open>quoteRune\<close>, which maps the rest of the
  string to the escaped text of its first rune and the number of bytes the rune spans.
  Go's decoder never returns a width below one; the loop here advances by one byte if the
  parameter does.
\<close>

definition lowerhex :: "nat \<Rightarrow> char" where
  "lowerhex n = ''0123456789abcdef'' ! (n mod 16)"

definition appendEscapedRune :: "char \<Rightarrow> string" where
  "appendEscapedRune c =
     (let r = (of_char c :: nat) in
      if r = 0x22 \<or> r = 0x5C then [CHR 0x5C, c]
      else if 0x20 \<le> r \<and> r < 0x7F then [c]
      else if r = 0x07 then [CHR 0x5C, CHR ''a'']
      else if r = 0x08 then [CHR 0x5C, CHR ''b'']
      else if r = 0x0C then [CHR 0x5C, CHR ''f'']
      else if r = 0x0A then [CHR 0x5C, CHR ''n'']
      else if r = 0x0D then [CHR 0x5C, CHR ''r'']
      else if r = 0x09 then [CHR 0x5C, CHR ''t'']
      else if r = 0x0B then [CHR 0x5C, CHR ''v'']
      else [CHR 0x5C, CHR ''x'', lowerhex (r div 16), lowerhex (r mod 16)])"

function appendQuoted :: "(string \<Rightarrow> string \<times> nat) \<Rightarrow> string \<Rightarrow> string" where
  "appendQuoted quoteRune [] = []"
| "appendQuoted quoteRune (c # s) =
     (if (of_char c :: nat) < 0x80 then appendEscapedRune c @ appendQuoted quoteRune s
      else (case quoteRune (c # s) of
              (out, width) \<Rightarrow> out @ appendQuoted quoteRune (drop (width - 1) s)))"
  by pat_completeness auto
termination
  by (relation "measure (\<lambda>(q, s). length s)") auto

definition Quote :: "(string \<Rightarrow> string \<times> nat) \<Rightarrow> string \<Rightarrow> string" where
  "Quote quoteRune s = CHR 0x22 # appendQuoted quoteRune s @ [CHR 0x22]"

subsection \<open>Errors\<close>

record errStitchResponseData =
  Error :: string

record ErrStitchResponse =
  data :: errStitchResponseData

text \<open>
  A value of Go's interface \<open>error\<close>, by the dynamic types that reach this file:
  an \<open>ErrStitchResponse\<close>, a value made by \<open>errors.New\<close> or \<open>fmt.Errorf\<close>, or an error
  handed back by a collaborator (transport, stream, JSON or MIME library).
\<close>

datatype error =
    StitchResponse ErrStitchResponse
  | ErrorString string
  | External string

definition ErrStitchResponse_Error :: "ErrStitchResponse \<Rightarrow> string" where
  "ErrStitchResponse_Error esr = Sprintf ''error: %s'' [Error (data esr)]"

fun error_Error :: "error \<Rightarrow> string" where
  "error_Error (StitchResponse esr) = ErrStitchResponse_Error esr"
| "error_Error (ErrorString s) = s"
| "error_Error (External s) = s"

definition errExportMissingFilename :: error where
  "errExportMissingFilename = ErrorString ''the app export response did not specify a filename''"

subsection \<open>Streams and error normalization\<close>

text \<open>
  An \<open>io.Reader\<close>: the bytes it yields, and the error that ends it if it does not end
  with EOF. \<open>ReadFrom\<close> is \<open>bytes.Buffer.ReadFrom\<close>: the buffer's contents and the error.
\<close>

record Reader =
  content :: string
  failure :: "string option"

definition ReadFrom :: "Reader \<Rightarrow> string \<times> string option" where
  "ReadFrom r = (content r, failure r)"

text \<open>
  \<open>json.NewDecoder(&buf).Decode(&stitchResponse)\<close> writes into the variable it is given
  and returns an error or nil. It is a parameter: from the buffered bytes and the
  variable's value to the variable's new value and the error.
\<close>

type_synonym stitchDecoder = "string \<Rightarrow> ErrStitchResponse \<Rightarrow> ErrStitchResponse \<times> string option"

definition UnmarshalReader :: "stitchDecoder \<Rightarrow> Reader \<Rightarrow> error" where
  "UnmarshalReader Decode r =
     (case ReadFrom r of
        (buf, Some err) \<Rightarrow> External err
      | (buf, None) \<Rightarrow>
          (let str = buf in
           case Decode buf \<lparr>data = \<lparr>Error = []\<rparr>\<rparr> of
             (stitchResponse, Some err) \<Rightarrow>
               StitchResponse (stitchResponse\<lparr>data := (data stitchResponse)\<lparr>Error := str\<rparr>\<rparr>)
           | (stitchResponse, None) \<Rightarrow> StitchResponse stitchResponse))"

subsection \<open>The transport and the record of what was done to it\<close>

type_synonym Header = "(string \<times> string list) list"

text \<open>\<open>http.Header.Get\<close> of a key already in canonical form: the first value, or the empty string.\<close>

definition Header_Get :: "Header \<Rightarrow> string \<Rightarrow> string" where
  "Header_Get h key = (case map_of h key of None \<Rightarrow> [] | Some [] \<Rightarrow> [] | Some (v # vs) \<Rightarrow> v)"

text \<open>
  Modelled from the spec: \<open>RequestOptions\<close> is declared elsewhere in the package; the
  spec gives it an optional body and an optional header mapping, absent meaning not sent.
\<close>

record RequestOptions =
  Body :: "string option"
  Header :: "Header option"

text \<open>The fields of \<open>http.Response\<close> that the file reads.\<close>

record Response =
  StatusCode :: int
  Status :: string
  ResHeader :: Header
  ResBody :: Reader

text \<open>
  Every call of the transport and every \<open>Close\<close> of a response body is appended to a
  log. A response body is named by the position of the call that returned it, so that
  \<open>Closed k\<close> closes the body of the response logged at position \<open>k\<close>. The transport may
  answer from everything that happened before: it is a function of the log.
\<close>

datatype event =
    Executed string string RequestOptions "string + Response"
  | Closed nat

type_synonym world = "event list"

type_synonym Client = "world \<Rightarrow> string \<Rightarrow> string \<Rightarrow> RequestOptions \<Rightarrow> string + Response"

definition ExecuteRequest ::
  "Client \<Rightarrow> string \<Rightarrow> string \<Rightarrow> RequestOptions \<Rightarrow> world \<Rightarrow> (string + nat \<times> Response) \<times> world" where
  "ExecuteRequest sc method path options w =
     (let r = sc w method path options
      in (case r of Inl err \<Rightarrow> Inl err | Inr res \<Rightarrow> Inr (length w, res),
          w @ [Executed method path options r]))"

definition Close :: "nat \<Rightarrow> world \<Rightarrow> world" where
  "Close k w = w @ [Closed k]"

fun openedFrom :: "nat \<Rightarrow> event list \<Rightarrow> nat list" where
  "openedFrom n [] = []"
| "openedFrom n (Executed m p opts (Inr res) # es) = n # openedFrom (Suc n) es"
| "openedFrom n (e # es) = openedFrom (Suc n) es"

definition opened :: "world \<Rightarrow> nat list" where
  "opened w = openedFrom 0 w"

fun closed :: "world \<Rightarrow> nat list" where
  "closed [] = []"
| "closed (Closed k # es) = k # closed es"
| "closed (e # es) = closed es"

fun requests :: "world \<Rightarrow> (string \<times> string \<times> RequestOptions) list" where
  "requests [] = []"
| "requests (Executed m p opts r # es) = (m, p, opts) # requests es"
| "requests (e # es) = requests es"

subsection \<open>Collaborators\<close>

record App =
  ClientAppID :: string

record 'p AuthenticationProvider =
  Payload :: 'p
  Type :: string

text \<open>
  The library and package functions the operations call, and \<open>adminBaseURL\<close>. A JSON
  decoder reads a response body and returns the decoded value or an error; the element
  type \<open>*models.App\<close> is a pointer, and JSON \<open>null\<close> decodes to nil, so a decoded app list
  is a list of options. \<open>ParseMediaType\<close> returns the media type and its parameters.
\<close>

record ('p, 'a, 'u, 'x) Library =
  adminBaseURL :: string
  json_Marshal :: "'p \<Rightarrow> string + string"
  Decode_ErrStitchResponse :: stitchDecoder
  Decode_auth_Response :: "Reader \<Rightarrow> string + 'a"
  Decode_strings :: "Reader \<Rightarrow> string + string list"
  Decode_Apps :: "Reader \<Rightarrow> string + 'x App_scheme option list"
  Decode_UserProfile :: "Reader \<Rightarrow> string + 'u"
  AllGroupIDs :: "'u \<Rightarrow> string list"
  mime_ParseMediaType :: "string \<Rightarrow> string + string \<times> (string \<times> string) list"
  quoteRune :: "string \<Rightarrow> string \<times> nat"

definition authProviderLoginRoute :: "string \<Rightarrow> string" where
  "authProviderLoginRoute base = base @ ''/auth/providers/%s/login''"

definition appExportRoute :: "string \<Rightarrow> string" where
  "appExportRoute base = base @ ''/groups/%s/apps/%s/export''"

definition appImportRoute :: "string \<Rightarrow> string" where
  "appImportRoute base = base @ ''/groups/%s/apps/%s/import''"

definition appsByGroupIDRoute :: "string \<Rightarrow> string" where
  "appsByGroupIDRoute base = base @ ''/groups/%s/apps''"

definition userProfileRoute :: "string \<Rightarrow> string" where
  "userProfileRoute base = base @ ''/auth/profile''"

subsection \<open>The operations\<close>

text \<open>
  Each operation takes the log and returns its Go results with the new log. A pointer or
  interface result is an option (nil is \<open>None\<close>), a nil slice is the empty list. A
  deferred \<open>Close\<close> runs after the results are computed, on every way out of the function.
\<close>

definition Authenticate ::
  "('p, 'a, 'u, 'x) Library \<Rightarrow> Client \<Rightarrow> 'p AuthenticationProvider \<Rightarrow> world
    \<Rightarrow> ('a option \<times> error option) \<times> world" where
  "Authenticate L sc authProvider w =
     (case json_Marshal L (Payload authProvider) of
        Inl err \<Rightarrow> ((None, Some (External err)), w)
      | Inr body \<Rightarrow>
          (case ExecuteRequest sc ''POST''
                  (Sprintf (authProviderLoginRoute (adminBaseURL L)) [Type authProvider])
                  \<lparr>Body = Some body, Header = Some [(''Content-Type'', [''application/json''])]\<rparr> w of
             (Inl err, w1) \<Rightarrow> ((None, Some (External err)), w1)
           | (Inr (k, res), w1) \<Rightarrow>
               (if StatusCode res \<noteq> 200 then
                  (None, Some (ErrorString (Sprintf ''%s: failed to authenticate: %s''
                     [Status res,
                      error_Error (UnmarshalReader (Decode_ErrStitchResponse L) (ResBody res))])))
                else
                  (case Decode_auth_Response L (ResBody res) of
                     Inl err \<Rightarrow> (None, Some (External err))
                   | Inr authResponse \<Rightarrow> (Some authResponse, None)),
                Close k w1)))"

definition Export ::
  "('p, 'a, 'u, 'x) Library \<Rightarrow> Client \<Rightarrow> string \<Rightarrow> string \<Rightarrow> world
    \<Rightarrow> (string \<times> (nat \<times> Reader) option \<times> error option) \<times> world" where
  "Export L sc groupID appID w =
     (case ExecuteRequest sc ''GET'' (Sprintf (appExportRoute (adminBaseURL L)) [groupID, appID])
             \<lparr>Body = None, Header = None\<rparr> w of
        (Inl err, w1) \<Rightarrow> (([], None, Some (External err)), w1)
      | (Inr (k, res), w1) \<Rightarrow>
          if StatusCode res \<noteq> 200 then
            (([], None, Some (UnmarshalReader (Decode_ErrStitchResponse L) (ResBody res))),
             Close k w1)
          else
            (case mime_ParseMediaType L (Header_Get (ResHeader res) ''Content-Disposition'') of
               Inl err \<Rightarrow> (([], None, Some (External err)), Close k w1)
             | Inr (mediatype, params) \<Rightarrow>
                 (let filename = (case map_of params ''filename'' of None \<Rightarrow> [] | Some v \<Rightarrow> v)
                  in if length filename = 0
                     then (([], None, Some errExportMissingFilename), Close k w1)
                     else ((filename, Some (k, ResBody res), None), w1))))"

definition invokeImportRoute ::
  "('p, 'a, 'u, 'x) Library \<Rightarrow> Client \<Rightarrow> string \<Rightarrow> string \<Rightarrow> string \<Rightarrow> string \<Rightarrow> bool \<Rightarrow> world
    \<Rightarrow> (string + nat \<times> Response) \<times> world" where
  "invokeImportRoute L sc groupID appID appData strategy diff w =
     (let url = Sprintf (appImportRoute (adminBaseURL L)) [groupID, appID];
          url = url @ Sprintf ''?strategy=%s'' [strategy];
          url = (if diff then url @ ''&diff=true'' else url)
      in ExecuteRequest sc ''POST'' url \<lparr>Body = Some appData, Header = None\<rparr> w)"

definition Diff ::
  "('p, 'a, 'u, 'x) Library \<Rightarrow> Client \<Rightarrow> string \<Rightarrow> string \<Rightarrow> string \<Rightarrow> string \<Rightarrow> world
    \<Rightarrow> (string list \<times> error option) \<times> world" where
  "Diff L sc groupID appID appData strategy w =
     (case invokeImportRoute L sc groupID appID appData strategy True w of
        (Inl err, w1) \<Rightarrow> (([], Some (External err)), w1)
      | (Inr (k, res), w1) \<Rightarrow>
          (if StatusCode res \<noteq> 200 then
             ([], Some (UnmarshalReader (Decode_ErrStitchResponse L) (ResBody res)))
           else
             (case Decode_strings L (ResBody res) of
                Inl err \<Rightarrow> ([], Some (External err))
              | Inr diffs \<Rightarrow> (diffs, None)),
           Close k w1))"

definition Import ::
  "('p, 'a, 'u, 'x) Library \<Rightarrow> Client \<Rightarrow> string \<Rightarrow> string \<Rightarrow> string \<Rightarrow> string \<Rightarrow> world
    \<Rightarrow> error option \<times> world" where
  "Import L sc groupID appID appData strategy w =
     (case invokeImportRoute L sc groupID appID appData strategy False w of
        (Inl err, w1) \<Rightarrow> (Some (External err), w1)
      | (Inr (k, res), w1) \<Rightarrow>
          (if StatusCode res \<noteq> 204 then
             Some (UnmarshalReader (Decode_ErrStitchResponse L) (ResBody res))
           else None,
           Close k w1))"

definition fetchAppsByGroupID ::
  "('p, 'a, 'u, 'x) Library \<Rightarrow> Client \<Rightarrow> string \<Rightarrow> world
    \<Rightarrow> ('x App_scheme option list \<times> error option) \<times> world" where
  "fetchAppsByGroupID L sc groupID w =
     (case ExecuteRequest sc ''GET'' (Sprintf (appsByGroupIDRoute (adminBaseURL L)) [groupID])
             \<lparr>Body = None, Header = None\<rparr> w of
        (Inl err, w1) \<Rightarrow> (([], Some (External err)), w1)
      | (Inr (k, res), w1) \<Rightarrow>
          (if StatusCode res \<noteq> 200 then
             (if StatusCode res = 404 then ([], None)
              else ([], Some (UnmarshalReader (Decode_ErrStitchResponse L) (ResBody res))))
           else
             (case Decode_Apps L (ResBody res) of
                Inl err \<Rightarrow> ([], Some (External err))
              | Inr apps \<Rightarrow> (apps, None)),
           Close k w1))"

text \<open>
  \<open>findAppByClientAppID\<close> reads \<open>app.ClientAppID\<close> through the pointer: at a nil entry
  the Go runtime panics.
\<close>

datatype panic = NilPointerDereference

fun findAppByClientAppID ::
  "'x App_scheme option list \<Rightarrow> string \<Rightarrow> panic + 'x App_scheme option" where
  "findAppByClientAppID [] clientAppID = Inr None"
| "findAppByClientAppID (None # apps) clientAppID = Inl NilPointerDereference"
| "findAppByClientAppID (Some app # apps) clientAppID =
     (if ClientAppID app = clientAppID then Inr (Some app)
      else findAppByClientAppID apps clientAppID)"

text \<open>The loop of \<open>FetchAppByClientAppID\<close> over the group identifiers, and what follows it.\<close>

fun searchGroups ::
  "('p, 'a, 'u, 'x) Library \<Rightarrow> Client \<Rightarrow> string \<Rightarrow> string list \<Rightarrow> world
    \<Rightarrow> (panic + 'x App_scheme option \<times> error option) \<times> world" where
  "searchGroups L sc clientAppID [] w =
     (Inr (None, Some (ErrorString
        (''unable to find app with ID: '' @ Quote (quoteRune L) clientAppID))), w)"
| "searchGroups L sc clientAppID (groupID # groupIDs) w =
     (case fetchAppsByGroupID L sc groupID w of
        ((apps, Some err), w1) \<Rightarrow> (Inr (None, Some err), w1)
      | ((apps, None), w1) \<Rightarrow>
          (case findAppByClientAppID apps clientAppID of
             Inl p \<Rightarrow> (Inl p, w1)
           | Inr (Some app) \<Rightarrow> (Inr (Some app, None), w1)
           | Inr None \<Rightarrow> searchGroups L sc clientAppID groupIDs w1))"

definition FetchAppByClientAppID ::
  "('p, 'a, 'u, 'x) Library \<Rightarrow> Client \<Rightarrow> string \<Rightarrow> world
    \<Rightarrow> (panic + 'x App_scheme option \<times> error option) \<times> world" where
  "FetchAppByClientAppID L sc clientAppID w =
     (case ExecuteRequest sc ''GET'' (userProfileRoute (adminBaseURL L))
             \<lparr>Body = None, Header = None\<rparr> w of
        (Inl err, w1) \<Rightarrow> (Inr (None, Some (External err)), w1)
      | (Inr (k, res), w1) \<Rightarrow>
          (if StatusCode res \<noteq> 200 then
             (Inr (None, Some (UnmarshalReader (Decode_ErrStitchResponse L) (ResBody res))),
              Close k w1)
           else
             (case Decode_UserProfile L (ResBody res) of
                Inl err \<Rightarrow> (Inr (None, Some (External err)), Close k w1)
              | Inr profileData \<Rightarrow>
                  (case searchGroups L sc clientAppID (AllGroupIDs L profileData) w1 of
                     (result, w2) \<Rightarrow> (result, Close k w2)))))"

subsection \<open>A small service, to run the operations on concrete inputs\<close>

text \<open>
  Stand-ins for the collaborators. \<open>sampleDecode\<close> accepts exactly the objects
  \<open>{"error":"text"}\<close> whose text has no quote and no backslash, and fails on everything
  else. The other decoders read one entry per byte: a profile body lists one-letter
  group identifiers, an app list body lists one-letter client app identifiers, the letter
  \<open>n\<close> standing for JSON \<open>null\<close>.
\<close>

definition sampleDecode :: stitchDecoder where
  "sampleDecode buf v =
     (let pre = ''{'' @ [CHR 0x22] @ ''error'' @ [CHR 0x22] @ '':'' @ [CHR 0x22];
          post = [CHR 0x22] @ ''}'';
          text = take (length buf - length pre - length post) (drop (length pre) buf)
      in if buf = pre @ text @ post \<and> CHR 0x22 \<notin> set text \<and> CHR 0x5C \<notin> set text
         then (v\<lparr>data := (data v)\<lparr>Error := text\<rparr>\<rparr>, None)
         else (v, Some ''invalid character''))"

definition sampleStream :: "Reader \<Rightarrow> string + string" where
  "sampleStream r = (case failure r of Some err \<Rightarrow> Inl err | None \<Rightarrow>
     if content r = [] then Inl ''EOF'' else Inr (content r))"

definition sampleLibrary :: "(string, string, string list, unit) Library" where
  "sampleLibrary =
     \<lparr>adminBaseURL = ''/api/admin/v3.0'',
      json_Marshal = (\<lambda>p. if p = [] then Inl ''json: unsupported type'' else Inr p),
      Decode_ErrStitchResponse = sampleDecode,
      Decode_auth_Response = sampleStream,
      Decode_strings = (\<lambda>r. map_sum id (map (\<lambda>c. [c])) (sampleStream r)),
      Decode_Apps = (\<lambda>r. map_sum id
         (map (\<lambda>c. if c = CHR ''n'' then None else Some \<lparr>ClientAppID = [c]\<rparr>)) (sampleStream r)),
      Decode_UserProfile = (\<lambda>r. map_sum id (map (\<lambda>c. [c])) (sampleStream r)),
      AllGroupIDs = (\<lambda>u. u),
      mime_ParseMediaType = (\<lambda>v.
         if v = ''attachment; filename=app.zip'' then Inr (''attachment'', [(''filename'', ''app.zip'')])
         else if v = ''attachment'' then Inr (''attachment'', [])
         else Inl ''mime: no media type''),
      quoteRune = (\<lambda>s. ([CHR 0x5C, CHR ''x'', lowerhex (of_char (hd s) div 16),
                           lowerhex (of_char (hd s) mod 16)], 1))\<rparr>"

definition respond :: "int \<Rightarrow> string \<Rightarrow> Header \<Rightarrow> string \<Rightarrow> string + Response" where
  "respond code status header body =
     Inr \<lparr>StatusCode = code, Status = status, ResHeader = header,
          ResBody = \<lparr>content = body, failure = None\<rparr>\<rparr>"

definition boom :: string where
  "boom = ''{'' @ [CHR 0x22] @ ''error'' @ [CHR 0x22] @ '':'' @ [CHR 0x22] @ ''boom'' @ [CHR 0x22] @ ''}''"

text \<open>
  The service: the profile lists the groups given as \<open>groups\<close>; group \<open>a\<close> is unknown
  (404), group \<open>b\<close> holds the apps \<open>y\<close> and \<open>x\<close>, group \<open>c\<close> answers with a null entry before
  the app \<open>x\<close>, group \<open>d\<close> fails with status 500.
\<close>

definition sampleClient :: "string \<Rightarrow> Client" where
  "sampleClient groups w method path options =
     (if path = ''/api/admin/v3.0/auth/profile'' then respond 200 ''200 OK'' [] groups
      else if path = ''/api/admin/v3.0/groups/a/apps'' then respond 404 ''404 Not Found'' [] ''no such group''
      else if path = ''/api/admin/v3.0/groups/b/apps'' then respond 200 ''200 OK'' [] ''yx''
      else if path = ''/api/admin/v3.0/groups/c/apps'' then respond 200 ''200 OK'' [] ''nx''
      else if path = ''/api/admin/v3.0/groups/d/apps'' then respond 500 ''500 Internal Server Error'' [] boom
      else if path = ''/api/admin/v3.0/groups/g1/apps/a1/export''
        then respond 200 ''200 OK'' [(''Content-Disposition'', [''attachment; filename=app.zip''])] ''PK''
      else if path = ''/api/admin/v3.0/groups/g1/apps/a2/export''
        then respond 200 ''200 OK'' [(''Content-Disposition'', [''attachment''])] ''PK''
      else if path = ''/api/admin/v3.0/groups/g1/apps/a3/export''
        then respond 403 ''403 Forbidden'' [] boom
      else if path = ''/api/admin/v3.0/groups/g1/apps/a1/import?strategy=merge''
        then respond 204 ''204 No Content'' [] []
      else if path = ''/api/admin/v3.0/groups/g1/apps/a1/import?strategy=replace''
        then respond 400 ''400 Bad Request'' [] boom
      else if path = ''/api/admin/v3.0/groups/g1/apps/a1/import?strategy=merge&diff=true''
        then respond 200 ''200 OK'' [] ''+-''
      else if path = ''/api/admin/v3.0/auth/providers/api-key/login''
        then (if Body options = Some ''secret'' then respond 200 ''200 OK'' [] ''token''
              else respond 401 ''401 Unauthorized'' [] ''<html>denied</html>'')
      else Inl ''connection refused'')"

subsection \<open>Predicates of the statements\<close>

text \<open>
  \<open>closesItsBodies w w' kept\<close>: the log \<open>w'\<close> extends \<open>w\<close>, and the events added close
  exactly the response bodies that these events obtained, each of them once, apart from
  the bodies listed in \<open>kept\<close>, which are left open.
\<close>

definition closesItsBodies :: "world \<Rightarrow> world \<Rightarrow> nat list \<Rightarrow> bool" where
  "closesItsBodies w w' kept \<longleftrightarrow>
     take (length w) w' = w \<and> length w \<le> length w' \<and>
     mset (closed (drop (length w) w')) + mset kept
       = mset (openedFrom (length w) (drop (length w) w'))"

text \<open>A printable ASCII character other than the double quote and the backslash.\<close>

definition plain :: "char \<Rightarrow> bool" where
  "plain c \<longleftrightarrow> 0x20 \<le> (of_char c :: nat) \<and> (of_char c :: nat) < 0x7F
     \<and> (of_char c :: nat) \<noteq> 0x22 \<and> (of_char c :: nat) \<noteq> 0x5C"

section \<open>Verification\<close>

subsection \<open>Formatting\<close>

lemma Sprintf_literal:
  "CHR ''%'' \<notin> set p \<Longrightarrow> Sprintf (p @ f) operands = p @ Sprintf f operands"
  by (induction p) auto

lemma ErrStitchResponse_Error_eq: "ErrStitchResponse_Error esr = ''error: '' @ Error (data esr)"
  by (simp add: ErrStitchResponse_Error_def)

lemma UnmarshalReader_readable:
  "failure r = None \<Longrightarrow> \<exists>esr. UnmarshalReader Decode r = StitchResponse esr"
  by (cases "Decode (content r) \<lparr>data = \<lparr>Error = []\<rparr>\<rparr>")
     (auto simp: UnmarshalReader_def ReadFrom_def split: option.splits)

subsection \<open>The log\<close>

lemma requests_append: "requests (u @ v) = requests u @ requests v"
  by (induction u rule: requests.induct) auto

lemma closed_append: "closed (u @ v) = closed u @ closed v"
  by (induction u rule: closed.induct) auto

lemma openedFrom_append:
  "openedFrom n (u @ v) = openedFrom n u @ openedFrom (n + length u) v"
  by (induction n u rule: openedFrom.induct) auto

lemma opened_append: "opened (u @ v) = opened u @ openedFrom (length u) v"
  by (simp add: opened_def openedFrom_append)

lemma openedFrom_bounds: "k \<in> set (openedFrom n es) \<Longrightarrow> n \<le> k \<and> k < n + length es"
  by (induction n es arbitrary: k rule: openedFrom.induct) fastforce+

lemma distinct_openedFrom: "distinct (openedFrom n es)"
proof (induction n es rule: openedFrom.induct)
  case (2 n m p opts res es)
  have "n \<notin> set (openedFrom (Suc n) es)"
    using openedFrom_bounds [of n "Suc n" es] by auto
  with 2 show ?case by simp
qed simp_all

lemma requests_ExecuteRequest:
  "requests (snd (ExecuteRequest sc m p opts w)) = requests w @ [(m, p, opts)]"
  by (simp add: ExecuteRequest_def Let_def requests_append)

lemma requests_Close: "requests (Close k w) = requests w"
  by (simp add: Close_def requests_append)

lemma closesItsBodies_refl: "closesItsBodies w w []"
  by (simp add: closesItsBodies_def)

lemma closesItsBodies_trans:
  assumes "closesItsBodies w w1 ks" "closesItsBodies w1 w2 ks'"
  shows "closesItsBodies w w2 (ks @ ks')"
proof -
  obtain e1 where e1: "w1 = w @ e1"
    using assms(1) by (metis append_take_drop_id closesItsBodies_def)
  obtain e2 where e2: "w2 = w1 @ e2"
    using assms(2) by (metis append_take_drop_id closesItsBodies_def)
  from assms have a: "mset (openedFrom (length w) e1) = mset (closed e1) + mset ks"
    and b: "mset (openedFrom (length w + length e1) e2) = mset (closed e2) + mset ks'"
    unfolding e2 e1 by (simp_all add: closesItsBodies_def)
  show ?thesis
    unfolding e2 e1 by (simp add: closesItsBodies_def closed_append openedFrom_append a b)
qed

lemma closesItsBodies_Close:
  assumes "closesItsBodies w w' [k]"
  shows "closesItsBodies w (Close k w') []"
proof -
  obtain e where e: "w' = w @ e"
    using assms by (metis append_take_drop_id closesItsBodies_def)
  from assms show ?thesis
    unfolding e by (simp add: closesItsBodies_def Close_def closed_append openedFrom_append)
qed

text \<open>
  With nothing kept, each body obtained is closed exactly once and nothing else is closed.
\<close>

lemma closesItsBodies_once:
  assumes "closesItsBodies w w' []"
  shows "count_list (closed (drop (length w) w')) k =
           (if k \<in> set (openedFrom (length w) (drop (length w) w')) then 1 else 0)"
proof -
  from assms have "mset (closed (drop (length w) w')) = mset (openedFrom (length w) (drop (length w) w'))"
    by (simp add: closesItsBodies_def)
  then have "count_list (closed (drop (length w) w')) k
               = count (mset (openedFrom (length w) (drop (length w) w'))) k"
    by (metis count_mset)
  also have "\<dots> = (if k \<in> set (openedFrom (length w) (drop (length w) w')) then 1 else 0)"
    using distinct_openedFrom [of "length w" "drop (length w) w'"]
    by (simp add: distinct_count_atmost_1)
  finally show ?thesis .
qed

subsection \<open>Error normalization\<close>

lemma sampleDecode_boom:
  "sampleDecode boom \<lparr>data = \<lparr>Error = []\<rparr>\<rparr> = (\<lparr>data = \<lparr>Error = ''boom''\<rparr>\<rparr>, None)"
  by (simp add: sampleDecode_def boom_def)

lemma sampleDecode_html:
  "sampleDecode ''<html>denied</html>'' \<lparr>data = \<lparr>Error = []\<rparr>\<rparr>
     = (\<lparr>data = \<lparr>Error = []\<rparr>\<rparr>, Some ''invalid character'')"
  by (simp add: sampleDecode_def)

lemma sampleDecode_empty:
  "sampleDecode [] \<lparr>data = \<lparr>Error = []\<rparr>\<rparr> = (\<lparr>data = \<lparr>Error = []\<rparr>\<rparr>, Some ''invalid character'')"
  by (simp add: sampleDecode_def)

text \<open>
  Claim C1. For a body that reads to its end without error: when the decoder returns no
  error the message of the result is the \<open>error\<close> field it decoded, whatever that is
  (the empty string included); when the decoder returns an error the message is the
  buffered body text; and the string form of the result is \<open>error: \<close> followed by the
  message. \<open>esr\<close> and \<open>err\<close> are what the decoder left in the variable and returned.
\<close>

theorem UnmarshalReader_message:
  "Decode body \<lparr>data = \<lparr>Error = []\<rparr>\<rparr> = (esr, err) \<Longrightarrow>
   (\<exists>result. UnmarshalReader Decode \<lparr>content = body, failure = None\<rparr> = StitchResponse result
      \<and> Error (data result) = (case err of None \<Rightarrow> Error (data esr) | Some e \<Rightarrow> body)
      \<and> error_Error (UnmarshalReader Decode \<lparr>content = body, failure = None\<rparr>)
          = ''error: '' @ Error (data result))"
  by (cases err) (simp_all add: UnmarshalReader_def ReadFrom_def ErrStitchResponse_Error_eq)

theorem UnmarshalReader_message_witness:
  "error_Error (UnmarshalReader sampleDecode \<lparr>content = boom, failure = None\<rparr>) = ''error: boom''
   \<and> error_Error (UnmarshalReader sampleDecode \<lparr>content = ''<html>denied</html>'', failure = None\<rparr>)
       = ''error: <html>denied</html>''
   \<and> error_Error (UnmarshalReader sampleDecode \<lparr>content = [], failure = None\<rparr>) = ''error: ''"
  using UnmarshalReader_message [of sampleDecode boom, OF sampleDecode_boom]
    UnmarshalReader_message [of sampleDecode "''<html>denied</html>''", OF sampleDecode_html]
    UnmarshalReader_message [of sampleDecode "[]", OF sampleDecode_empty]
  by auto

text \<open>
  Claim C8. \<open>UnmarshalReader\<close> returns a value for every reader and every decoder. The
  value is an \<open>ErrStitchResponse\<close> exactly when the stream was read without error; a
  stream that fails gives back the stream's own error; and a body that was read but not
  decoded gives the \<open>ErrStitchResponse\<close> whose message is the body text.
\<close>

theorem UnmarshalReader_total:
  "((\<exists>esr. UnmarshalReader Decode r = StitchResponse esr) \<longleftrightarrow> failure r = None)
   \<and> (\<forall>e. failure r = Some e \<longrightarrow> UnmarshalReader Decode r = External e)
   \<and> (failure r = None \<and> snd (Decode (content r) \<lparr>data = \<lparr>Error = []\<rparr>\<rparr>) \<noteq> None
        \<longrightarrow> UnmarshalReader Decode r = StitchResponse \<lparr>data = \<lparr>Error = content r\<rparr>\<rparr>)"
  by (cases "failure r"; cases "Decode (content r) \<lparr>data = \<lparr>Error = []\<rparr>\<rparr>")
     (auto simp: UnmarshalReader_def ReadFrom_def split: option.splits)

theorem UnmarshalReader_total_witness:
  "UnmarshalReader sampleDecode \<lparr>content = ''<ht'', failure = Some ''connection reset''\<rparr>
     = External ''connection reset''
   \<and> UnmarshalReader sampleDecode \<lparr>content = ''<html>denied</html>'', failure = None\<rparr>
     = StitchResponse \<lparr>data = \<lparr>Error = ''<html>denied</html>''\<rparr>\<rparr>"
  using UnmarshalReader_total [of sampleDecode "\<lparr>content = ''<ht'', failure = Some ''connection reset''\<rparr>"]
    UnmarshalReader_total [of sampleDecode "\<lparr>content = ''<html>denied</html>'', failure = None\<rparr>"]
  by (simp add: sampleDecode_html)

subsection \<open>Authenticate\<close>

lemma sample_simps:
  "adminBaseURL sampleLibrary = ''/api/admin/v3.0''"
  "json_Marshal sampleLibrary p = (if p = [] then Inl ''json: unsupported type'' else Inr p)"
  "Decode_ErrStitchResponse sampleLibrary = sampleDecode"
  "Decode_auth_Response sampleLibrary = sampleStream"
  "AllGroupIDs sampleLibrary u = u"
  by (simp_all add: sampleLibrary_def)

text \<open>
  Claim C10. When \<open>json.Marshal\<close> of the provider's payload fails, \<open>Authenticate\<close>
  returns that error with no response, and the log is the one it was given: the transport
  was not called.
\<close>

theorem Authenticate_marshal_failure:
  "json_Marshal L (Payload authProvider) = Inl err \<Longrightarrow>
   Authenticate L sc authProvider w = ((None, Some (External err)), w)
   \<and> requests (snd (Authenticate L sc authProvider w)) = requests w"
  by (simp add: Authenticate_def)

theorem Authenticate_marshal_failure_witness:
  "Authenticate sampleLibrary (sampleClient []) \<lparr>Payload = [], Type = ''api-key''\<rparr> []
     = ((None, Some (External ''json: unsupported type'')), [])"
  using Authenticate_marshal_failure
    [of sampleLibrary "\<lparr>Payload = [], Type = ''api-key''\<rparr>" "''json: unsupported type''"
        "sampleClient []" "[]"]
  by (simp add: sample_simps)

text \<open>
  Claim C7. When the payload is serialized and the transport answers with a response:
  on status 200 the body is decoded as the authentication response, and a decoding error
  is returned as it is, an error of the collaborator and not an \<open>ErrStitchResponse\<close>;
  on any other status the error returned has the message made of the status text,
  \<open>: failed to authenticate: \<close> and the string form of what \<open>UnmarshalReader\<close> made of
  the body, an \<open>ErrStitchResponse\<close> whenever the body can be read to its end.
\<close>

theorem Authenticate_status:
  assumes "json_Marshal L (Payload authProvider) = Inr body"
    and "sc w ''POST'' (Sprintf (authProviderLoginRoute (adminBaseURL L)) [Type authProvider])
           \<lparr>Body = Some body, Header = Some [(''Content-Type'', [''application/json''])]\<rparr> = Inr res"
  shows "fst (Authenticate L sc authProvider w) =
         (if StatusCode res = 200 then
            (case Decode_auth_Response L (ResBody res) of
               Inl err \<Rightarrow> (None, Some (External err))
             | Inr authResponse \<Rightarrow> (Some authResponse, None))
          else (None, Some (ErrorString (Status res @ '': failed to authenticate: '' @
                  error_Error (UnmarshalReader (Decode_ErrStitchResponse L) (ResBody res))))))
         \<and> (\<forall>err esr. External err \<noteq> StitchResponse esr)
         \<and> (failure (ResBody res) = None \<longrightarrow>
              (\<exists>esr. UnmarshalReader (Decode_ErrStitchResponse L) (ResBody res) = StitchResponse esr))"
  using assms UnmarshalReader_readable [of "ResBody res" "Decode_ErrStitchResponse L"]
  by (simp add: Authenticate_def ExecuteRequest_def)

lemma sample_login:
  "sampleClient gs w ''POST'' (Sprintf (authProviderLoginRoute ''/api/admin/v3.0'') [''api-key''])
     \<lparr>Body = Some p, Header = h\<rparr>
   = (if p = ''secret'' then respond 200 ''200 OK'' [] ''token''
      else respond 401 ''401 Unauthorized'' [] ''<html>denied</html>'')"
  by (simp add: authProviderLoginRoute_def sampleClient_def)

lemma sample_denied:
  "error_Error (UnmarshalReader sampleDecode \<lparr>content = ''<html>denied</html>'', failure = None\<rparr>)
     = ''error: <html>denied</html>''"
  by (simp add: UnmarshalReader_def ReadFrom_def sampleDecode_html ErrStitchResponse_Error_eq)

theorem Authenticate_status_witness:
  "fst (Authenticate sampleLibrary (sampleClient []) \<lparr>Payload = ''nope'', Type = ''api-key''\<rparr> [])
     = (None, Some (ErrorString
          ''401 Unauthorized: failed to authenticate: error: <html>denied</html>''))
   \<and> fst (Authenticate sampleLibrary (sampleClient []) \<lparr>Payload = ''secret'', Type = ''api-key''\<rparr> [])
     = (Some ''token'', None)"
  using
    Authenticate_status [of sampleLibrary "\<lparr>Payload = ''nope'', Type = ''api-key''\<rparr>" "''nope''"
      "sampleClient []" "[]"
      "\<lparr>StatusCode = 401, Status = ''401 Unauthorized'', ResHeader = [],
        ResBody = \<lparr>content = ''<html>denied</html>'', failure = None\<rparr>\<rparr>"]
    Authenticate_status [of sampleLibrary "\<lparr>Payload = ''secret'', Type = ''api-key''\<rparr>" "''secret''"
      "sampleClient []" "[]"
      "\<lparr>StatusCode = 200, Status = ''200 OK'', ResHeader = [],
        ResBody = \<lparr>content = ''token'', failure = None\<rparr>\<rparr>"]
  by (simp add: sample_simps sample_login respond_def sample_denied sampleStream_def)

subsection \<open>Import and Diff\<close>

lemma import_url:
  "CHR ''%'' \<notin> set base \<Longrightarrow>
   Sprintf (appImportRoute base) [g, a] = base @ ''/groups/'' @ g @ ''/apps/'' @ a @ ''/import''"
  by (simp add: appImportRoute_def Sprintf_literal)

lemma invokeImportRoute_eq:
  assumes "CHR ''%'' \<notin> set (adminBaseURL L)"
  shows "invokeImportRoute L sc groupID appID appData strategy diff w =
           ExecuteRequest sc ''POST''
             (adminBaseURL L @ ''/groups/'' @ groupID @ ''/apps/'' @ appID @ ''/import?strategy='' @ strategy
                @ (if diff then ''&diff=true'' else []))
             \<lparr>Body = Some appData, Header = None\<rparr> w"
  using assms by (simp add: invokeImportRoute_def import_url)

lemma requests_Import:
  "requests (snd (Import L sc g a d s w)) = requests (snd (invokeImportRoute L sc g a d s False w))"
  by (auto simp: Import_def requests_Close split: prod.splits sum.splits)

lemma requests_Diff:
  "requests (snd (Diff L sc g a d s w)) = requests (snd (invokeImportRoute L sc g a d s True w))"
  by (auto simp: Diff_def requests_Close split: prod.splits sum.splits)

text \<open>
  Claim C5. With a base URL free of percent signs, \<open>invokeImportRoute\<close> is one call of
  the transport: method POST, the path \<open>/groups/{groupID}/apps/{appID}/import?strategy={strategy}\<close>
  after the base URL, followed by \<open>&diff=true\<close> in diff mode and by nothing otherwise, the
  bytes of \<open>appData\<close> as body, no header. \<open>Import\<close> issues exactly that request without
  the suffix and \<open>Diff\<close> exactly that request with it, whatever the identifiers, the data
  and the strategy are.
\<close>

theorem import_route:
  assumes "CHR ''%'' \<notin> set (adminBaseURL L)"
  shows "invokeImportRoute L sc groupID appID appData strategy diff w =
           ExecuteRequest sc ''POST''
             (adminBaseURL L @ ''/groups/'' @ groupID @ ''/apps/'' @ appID @ ''/import?strategy='' @ strategy
                @ (if diff then ''&diff=true'' else []))
             \<lparr>Body = Some appData, Header = None\<rparr> w
         \<and> requests (snd (Import L sc groupID appID appData strategy w)) =
             requests w @ [(''POST'',
               adminBaseURL L @ ''/groups/'' @ groupID @ ''/apps/'' @ appID @ ''/import?strategy='' @ strategy,
               \<lparr>Body = Some appData, Header = None\<rparr>)]
         \<and> requests (snd (Diff L sc groupID appID appData strategy w)) =
             requests w @ [(''POST'',
               adminBaseURL L @ ''/groups/'' @ groupID @ ''/apps/'' @ appID @ ''/import?strategy='' @ strategy
                 @ ''&diff=true'',
               \<lparr>Body = Some appData, Header = None\<rparr>)]"
  using assms
  by (simp add: requests_Import requests_Diff invokeImportRoute_eq requests_ExecuteRequest)

theorem import_route_witness:
  "requests (snd (Diff sampleLibrary (sampleClient []) ''g1'' ''a1'' ''zip'' ''merge'' []))
     = [(''POST'', ''/api/admin/v3.0/groups/g1/apps/a1/import?strategy=merge&diff=true'',
         \<lparr>Body = Some ''zip'', Header = None\<rparr>)]
   \<and> requests (snd (Import sampleLibrary (sampleClient []) ''g1'' ''a1'' ''zip'' ''merge'' []))
     = [(''POST'', ''/api/admin/v3.0/groups/g1/apps/a1/import?strategy=merge'',
         \<lparr>Body = Some ''zip'', Header = None\<rparr>)]"
  using import_route [of sampleLibrary "sampleClient []" "''g1''" "''a1''" "''zip''" "''merge''" True "[]"]
  by (simp add: sample_simps)

text \<open>
  Claim C6. When the transport answers the import request with a response, \<open>Import\<close>
  returns nil on status 204 and, on every other status, the error that
  \<open>UnmarshalReader\<close> makes of the response body; so it returns nil exactly on 204.
  That error is an \<open>ErrStitchResponse\<close> whenever the body can be read to its end.
\<close>

theorem Import_error_iff:
  assumes "fst (invokeImportRoute L sc groupID appID appData strategy False w) = Inr (k, res)"
  shows "fst (Import L sc groupID appID appData strategy w) =
           (if StatusCode res = 204 then None
            else Some (UnmarshalReader (Decode_ErrStitchResponse L) (ResBody res)))
         \<and> (fst (Import L sc groupID appID appData strategy w) = None \<longleftrightarrow> StatusCode res = 204)
         \<and> (failure (ResBody res) = None \<longrightarrow>
              (\<exists>esr. UnmarshalReader (Decode_ErrStitchResponse L) (ResBody res) = StitchResponse esr))"
  using assms UnmarshalReader_readable [of "ResBody res" "Decode_ErrStitchResponse L"]
  by (auto simp: Import_def split: prod.splits sum.splits)

lemma sample_import:
  "fst (invokeImportRoute sampleLibrary (sampleClient gs) ''g1'' ''a1'' d ''merge'' False []) =
     Inr (0, \<lparr>StatusCode = 204, Status = ''204 No Content'', ResHeader = [],
              ResBody = \<lparr>content = [], failure = None\<rparr>\<rparr>)"
  "fst (invokeImportRoute sampleLibrary (sampleClient gs) ''g1'' ''a1'' d ''replace'' False []) =
     Inr (0, \<lparr>StatusCode = 400, Status = ''400 Bad Request'', ResHeader = [],
              ResBody = \<lparr>content = boom, failure = None\<rparr>\<rparr>)"
  by (simp_all add: invokeImportRoute_eq sample_simps ExecuteRequest_def sampleClient_def respond_def)

lemma sample_boom:
  "UnmarshalReader sampleDecode \<lparr>content = boom, failure = None\<rparr>
     = StitchResponse \<lparr>data = \<lparr>Error = ''boom''\<rparr>\<rparr>"
  by (simp add: UnmarshalReader_def ReadFrom_def sampleDecode_boom)

theorem Import_error_iff_witness:
  "fst (Import sampleLibrary (sampleClient []) ''g1'' ''a1'' ''zip'' ''merge'' []) = None
   \<and> fst (Import sampleLibrary (sampleClient []) ''g1'' ''a1'' ''zip'' ''replace'' [])
       = Some (StitchResponse \<lparr>data = \<lparr>Error = ''boom''\<rparr>\<rparr>)"
  using
    Import_error_iff [of sampleLibrary "sampleClient []" "''g1''" "''a1''" "''zip''" "''merge''" "[]" 0
      "\<lparr>StatusCode = 204, Status = ''204 No Content'', ResHeader = [],
        ResBody = \<lparr>content = [], failure = None\<rparr>\<rparr>"]
    Import_error_iff [of sampleLibrary "sampleClient []" "''g1''" "''a1''" "''zip''" "''replace''" "[]" 0
      "\<lparr>StatusCode = 400, Status = ''400 Bad Request'', ResHeader = [],
        ResBody = \<lparr>content = boom, failure = None\<rparr>\<rparr>"]
  by (simp add: sample_import sample_simps sample_boom)

subsection \<open>Export\<close>

text \<open>
  Claim C4. When the transport answers the export request with a response \<open>res\<close>, whose
  body is named by its position \<open>length w\<close> in the log: on status 200 with a
  \<open>Content-Disposition\<close> header that parses, a non-empty \<open>filename\<close> parameter is
  returned together with that body and no \<open>Close\<close> is logged, while an absent or empty
  parameter closes the body and gives the error \<open>errExportMissingFilename\<close> with the
  stated text; on any other status the body is closed and the results are the empty
  file name, no stream and what \<open>UnmarshalReader\<close> makes of the body, an
  \<open>ErrStitchResponse\<close> whenever the body can be read to its end.
\<close>

theorem Export_contract:
  assumes "sc w ''GET'' (Sprintf (appExportRoute (adminBaseURL L)) [groupID, appID])
             \<lparr>Body = None, Header = None\<rparr> = Inr res"
  shows "(StatusCode res = 200 \<longrightarrow>
            (\<forall>mediatype params filename.
               mime_ParseMediaType L (Header_Get (ResHeader res) ''Content-Disposition'')
                 = Inr (mediatype, params) \<longrightarrow>
               (map_of params ''filename'' = Some filename \<and> filename \<noteq> [] \<longrightarrow>
                  fst (Export L sc groupID appID w) = (filename, Some (length w, ResBody res), None)
                  \<and> closed (snd (Export L sc groupID appID w)) = closed w)
               \<and> (map_of params ''filename'' = None \<or> map_of params ''filename'' = Some [] \<longrightarrow>
                  fst (Export L sc groupID appID w) = ([], None, Some errExportMissingFilename)
                  \<and> closed (snd (Export L sc groupID appID w)) = closed w @ [length w])))
       \<and> (StatusCode res \<noteq> 200 \<longrightarrow>
            fst (Export L sc groupID appID w) =
              ([], None, Some (UnmarshalReader (Decode_ErrStitchResponse L) (ResBody res)))
            \<and> closed (snd (Export L sc groupID appID w)) = closed w @ [length w])
       \<and> error_Error errExportMissingFilename = ''the app export response did not specify a filename''
       \<and> (failure (ResBody res) = None \<longrightarrow>
            (\<exists>esr. UnmarshalReader (Decode_ErrStitchResponse L) (ResBody res) = StitchResponse esr))"
  using assms UnmarshalReader_readable [of "ResBody res" "Decode_ErrStitchResponse L"]
  by (auto simp: Export_def ExecuteRequest_def Close_def closed_append errExportMissingFilename_def)

lemma export_url:
  "Sprintf (appExportRoute ''/api/admin/v3.0'') [''g1'', a] = ''/api/admin/v3.0/groups/g1/apps/'' @ a @ ''/export''"
  by (simp add: appExportRoute_def)

lemma sample_export:
  "sampleClient gs w ''GET'' (Sprintf (appExportRoute ''/api/admin/v3.0'') [''g1'', ''a1''])
     \<lparr>Body = None, Header = None\<rparr>
     = Inr \<lparr>StatusCode = 200, Status = ''200 OK'',
            ResHeader = [(''Content-Disposition'', [''attachment; filename=app.zip''])],
            ResBody = \<lparr>content = ''PK'', failure = None\<rparr>\<rparr>"
  "sampleClient gs w ''GET'' (Sprintf (appExportRoute ''/api/admin/v3.0'') [''g1'', ''a2''])
     \<lparr>Body = None, Header = None\<rparr>
     = Inr \<lparr>StatusCode = 200, Status = ''200 OK'',
            ResHeader = [(''Content-Disposition'', [''attachment''])],
            ResBody = \<lparr>content = ''PK'', failure = None\<rparr>\<rparr>"
  "sampleClient gs w ''GET'' (Sprintf (appExportRoute ''/api/admin/v3.0'') [''g1'', ''a3''])
     \<lparr>Body = None, Header = None\<rparr>
     = Inr \<lparr>StatusCode = 403, Status = ''403 Forbidden'', ResHeader = [],
            ResBody = \<lparr>content = boom, failure = None\<rparr>\<rparr>"
  by (simp_all add: export_url sampleClient_def respond_def)

lemma sample_mime:
  "mime_ParseMediaType sampleLibrary ''attachment; filename=app.zip''
     = Inr (''attachment'', [(''filename'', ''app.zip'')])"
  "mime_ParseMediaType sampleLibrary ''attachment'' = Inr (''attachment'', [])"
  by (simp_all add: sampleLibrary_def)

theorem Export_contract_witness:
  "fst (Export sampleLibrary (sampleClient []) ''g1'' ''a1'' [])
       = (''app.zip'', Some (0, \<lparr>content = ''PK'', failure = None\<rparr>), None)
   \<and> closed (snd (Export sampleLibrary (sampleClient []) ''g1'' ''a1'' [])) = []
   \<and> fst (Export sampleLibrary (sampleClient []) ''g1'' ''a2'' [])
       = ([], None, Some (ErrorString ''the app export response did not specify a filename''))
   \<and> closed (snd (Export sampleLibrary (sampleClient []) ''g1'' ''a2'' [])) = [0]
   \<and> fst (Export sampleLibrary (sampleClient []) ''g1'' ''a3'' [])
       = ([], None, Some (StitchResponse \<lparr>data = \<lparr>Error = ''boom''\<rparr>\<rparr>))
   \<and> closed (snd (Export sampleLibrary (sampleClient []) ''g1'' ''a3'' [])) = [0]"
  using
    Export_contract [of "sampleClient []" "[]" sampleLibrary "''g1''" "''a1''",
      OF sample_export(1) [unfolded sample_simps(1) [symmetric]]]
    Export_contract [of "sampleClient []" "[]" sampleLibrary "''g1''" "''a2''",
      OF sample_export(2) [unfolded sample_simps(1) [symmetric]]]
    Export_contract [of "sampleClient []" "[]" sampleLibrary "''g1''" "''a3''",
      OF sample_export(3) [unfolded sample_simps(1) [symmetric]]]
  by (simp add: Header_Get_def sample_mime sample_simps sample_boom errExportMissingFilename_def)

subsection \<open>FetchAppByClientAppID\<close>

lemma findAppByClientAppID_apps:
  "findAppByClientAppID (map Some apps) clientAppID
     = Inr (find (\<lambda>app. ClientAppID app = clientAppID) apps)"
  by (induction apps) auto

lemma findAppByClientAppID_nil:
  "findAppByClientAppID (map Some apps @ None # rest) clientAppID =
     (case find (\<lambda>app. ClientAppID app = clientAppID) apps of
        Some app \<Rightarrow> Inr (Some app) | None \<Rightarrow> Inl NilPointerDereference)"
  by (induction apps) auto

lemma appendEscapedRune_plain: "plain c \<Longrightarrow> appendEscapedRune c = [c]"
  by (simp add: plain_def appendEscapedRune_def Let_def)

lemma appendQuoted_plain: "\<forall>c\<in>set s. plain c \<Longrightarrow> appendQuoted q s = s"
proof (induction s)
  case Nil
  show ?case by simp
next
  case (Cons c s)
  then have "plain c" by simp
  then have "(of_char c :: nat) < 0x80" by (simp add: plain_def)
  with Cons \<open>plain c\<close> show ?case by (simp add: appendEscapedRune_plain)
qed

lemma Quote_plain: "\<forall>c\<in>set s. plain c \<Longrightarrow> Quote q s = CHR 0x22 # s @ [CHR 0x22]"
  by (simp add: Quote_def appendQuoted_plain)

text \<open>
  The scan of one group whose list holds no nil entry: the first app with the requested
  identifier is returned and the log is the one the group's request left, or the search
  goes on with the next group. After the last group the error names the identifier as
  \<open>%q\<close> prints it, which for plain characters is the identifier between double quotes.
\<close>

lemma searchGroups_scan:
  assumes "fetchAppsByGroupID L sc groupID w = ((map Some apps, None), w1)"
  shows "searchGroups L sc clientAppID (groupID # groupIDs) w =
           (case find (\<lambda>app. ClientAppID app = clientAppID) apps of
              Some app \<Rightarrow> (Inr (Some app, None), w1)
            | None \<Rightarrow> searchGroups L sc clientAppID groupIDs w1)"
  using assms by (simp add: findAppByClientAppID_apps split: option.splits)

lemma searchGroups_exhausted:
  "\<forall>c\<in>set clientAppID. plain c \<Longrightarrow>
   searchGroups L sc clientAppID [] w =
     (Inr (None, Some (ErrorString
        (''unable to find app with ID: '' @ [CHR 0x22] @ clientAppID @ [CHR 0x22]))), w)"
  by (simp add: Quote_plain)

lemma searchGroups_nil_entry:
  assumes "fetchAppsByGroupID L sc groupID w = ((map Some apps @ None # rest, None), w1)"
    and "find (\<lambda>app. ClientAppID app = clientAppID) apps = None"
  shows "searchGroups L sc clientAppID (groupID # groupIDs) w = (Inl NilPointerDereference, w1)"
  using assms by (simp add: findAppByClientAppID_nil)

lemma FetchAppByClientAppID_profile:
  assumes "sc w ''GET'' (userProfileRoute (adminBaseURL L)) \<lparr>Body = None, Header = None\<rparr> = Inr res"
    and "StatusCode res = 200"
    and "Decode_UserProfile L (ResBody res) = Inr profileData"
  shows "FetchAppByClientAppID L sc clientAppID w =
           (case searchGroups L sc clientAppID (AllGroupIDs L profileData)
                   (w @ [Executed ''GET'' (userProfileRoute (adminBaseURL L))
                           \<lparr>Body = None, Header = None\<rparr> (Inr res)]) of
              (result, w2) \<Rightarrow> (result, w2 @ [Closed (length w)]))"
  using assms by (simp add: FetchAppByClientAppID_def ExecuteRequest_def Close_def)

lemma apps_url:
  "Sprintf (appsByGroupIDRoute ''/api/admin/v3.0'') [g] = ''/api/admin/v3.0/groups/'' @ g @ ''/apps''"
  by (simp add: appsByGroupIDRoute_def)

lemma sample_apps:
  "sampleClient gs w ''GET'' (Sprintf (appsByGroupIDRoute ''/api/admin/v3.0'') [''a''])
     \<lparr>Body = None, Header = None\<rparr>
     = Inr \<lparr>StatusCode = 404, Status = ''404 Not Found'', ResHeader = [],
            ResBody = \<lparr>content = ''no such group'', failure = None\<rparr>\<rparr>"
  "sampleClient gs w ''GET'' (Sprintf (appsByGroupIDRoute ''/api/admin/v3.0'') [''b''])
     \<lparr>Body = None, Header = None\<rparr>
     = Inr \<lparr>StatusCode = 200, Status = ''200 OK'', ResHeader = [],
            ResBody = \<lparr>content = ''yx'', failure = None\<rparr>\<rparr>"
  "sampleClient gs w ''GET'' (Sprintf (appsByGroupIDRoute ''/api/admin/v3.0'') [''c''])
     \<lparr>Body = None, Header = None\<rparr>
     = Inr \<lparr>StatusCode = 200, Status = ''200 OK'', ResHeader = [],
            ResBody = \<lparr>content = ''nx'', failure = None\<rparr>\<rparr>"
  "sampleClient gs w ''GET'' (Sprintf (appsByGroupIDRoute ''/api/admin/v3.0'') [''d''])
     \<lparr>Body = None, Header = None\<rparr>
     = Inr \<lparr>StatusCode = 500, Status = ''500 Internal Server Error'', ResHeader = [],
            ResBody = \<lparr>content = boom, failure = None\<rparr>\<rparr>"
  by (simp_all add: apps_url sampleClient_def respond_def)

lemma sample_profile:
  "sampleClient gs w ''GET'' (userProfileRoute ''/api/admin/v3.0'') \<lparr>Body = None, Header = None\<rparr>
     = Inr \<lparr>StatusCode = 200, Status = ''200 OK'', ResHeader = [],
            ResBody = \<lparr>content = gs, failure = None\<rparr>\<rparr>"
  by (simp add: userProfileRoute_def sampleClient_def respond_def)

lemma sample_decoders:
  "Decode_Apps sampleLibrary \<lparr>content = ''yx'', failure = None\<rparr>
     = Inr [Some \<lparr>ClientAppID = ''y''\<rparr>, Some \<lparr>ClientAppID = ''x''\<rparr>]"
  "Decode_Apps sampleLibrary \<lparr>content = ''nx'', failure = None\<rparr>
     = Inr [None, Some \<lparr>ClientAppID = ''x''\<rparr>]"
  "Decode_UserProfile sampleLibrary \<lparr>content = ''ab'', failure = None\<rparr> = Inr [''a'', ''b'']"
  "Decode_UserProfile sampleLibrary \<lparr>content = ''c'', failure = None\<rparr> = Inr [''c'']"
  by (simp_all add: sampleLibrary_def sampleStream_def)

lemma sample_fetch:
  "fetchAppsByGroupID sampleLibrary (sampleClient gs) ''a'' w =
     (([], None),
      w @ [Executed ''GET'' ''/api/admin/v3.0/groups/a/apps'' \<lparr>Body = None, Header = None\<rparr>
             (Inr \<lparr>StatusCode = 404, Status = ''404 Not Found'', ResHeader = [],
                    ResBody = \<lparr>content = ''no such group'', failure = None\<rparr>\<rparr>),
           Closed (length w)])"
  "fetchAppsByGroupID sampleLibrary (sampleClient gs) ''b'' w =
     (([Some \<lparr>ClientAppID = ''y''\<rparr>, Some \<lparr>ClientAppID = ''x''\<rparr>], None),
      w @ [Executed ''GET'' ''/api/admin/v3.0/groups/b/apps'' \<lparr>Body = None, Header = None\<rparr>
             (Inr \<lparr>StatusCode = 200, Status = ''200 OK'', ResHeader = [],
                    ResBody = \<lparr>content = ''yx'', failure = None\<rparr>\<rparr>),
           Closed (length w)])"
  "fetchAppsByGroupID sampleLibrary (sampleClient gs) ''c'' w =
     (([None, Some \<lparr>ClientAppID = ''x''\<rparr>], None),
      w @ [Executed ''GET'' ''/api/admin/v3.0/groups/c/apps'' \<lparr>Body = None, Header = None\<rparr>
             (Inr \<lparr>StatusCode = 200, Status = ''200 OK'', ResHeader = [],
                    ResBody = \<lparr>content = ''nx'', failure = None\<rparr>\<rparr>),
           Closed (length w)])"
  using sample_apps(1) [of gs w] sample_apps(2) [of gs w] sample_apps(3) [of gs w]
  by (simp_all add: fetchAppsByGroupID_def ExecuteRequest_def Close_def sample_simps
      sample_decoders apps_url)

text \<open>
  Claim C2, at the input where the code departs from it. The profile lists the one group
  \<open>c\<close>, and the app list of \<open>c\<close> decodes to a nil entry followed by the app whose
  identifier is the requested \<open>x\<close>. The scan dereferences the nil entry: the call panics,
  after both bodies were closed, instead of returning the app.
\<close>

theorem FetchAppByClientAppID_nil_entry:
  "FetchAppByClientAppID sampleLibrary (sampleClient ''c'') ''x'' [] =
     (Inl NilPointerDereference,
      [Executed ''GET'' ''/api/admin/v3.0/auth/profile'' \<lparr>Body = None, Header = None\<rparr>
         (Inr \<lparr>StatusCode = 200, Status = ''200 OK'', ResHeader = [],
                ResBody = \<lparr>content = ''c'', failure = None\<rparr>\<rparr>),
       Executed ''GET'' ''/api/admin/v3.0/groups/c/apps'' \<lparr>Body = None, Header = None\<rparr>
         (Inr \<lparr>StatusCode = 200, Status = ''200 OK'', ResHeader = [],
                ResBody = \<lparr>content = ''nx'', failure = None\<rparr>\<rparr>),
       Closed 1, Closed 0])"
proof -
  let ?res = "\<lparr>StatusCode = 200, Status = ''200 OK'', ResHeader = [],
               ResBody = \<lparr>content = ''c'', failure = None\<rparr>\<rparr>"
  have p: "sampleClient ''c'' [] ''GET'' (userProfileRoute (adminBaseURL sampleLibrary))
             \<lparr>Body = None, Header = None\<rparr> = Inr ?res"
    by (simp add: sample_simps sample_profile)
  have q: "StatusCode ?res = 200"
    by simp
  have r: "Decode_UserProfile sampleLibrary (ResBody ?res) = Inr [''c'']"
    by (simp add: sample_decoders)
  show ?thesis
    unfolding FetchAppByClientAppID_profile
      [where sc = "sampleClient ''c''" and w = "[]" and L = sampleLibrary, OF p q r]
    by (simp add: sample_simps userProfileRoute_def sample_fetch)
qed

text \<open>
  Claim C3. When the transport answers the app list request of a group with a response,
  \<open>w1\<close> being the log after that request and the closing of its body: on status 404
  \<open>fetchAppsByGroupID\<close> returns the empty list and no error, and the loop goes on with
  the remaining groups from \<open>w1\<close>; on any other status than 200 the loop ends with what
  \<open>UnmarshalReader\<close> makes of the body (an \<open>ErrStitchResponse\<close> whenever the body can
  be read to its end), and on status 200 with a body that does not decode it ends with
  the decoder's error; in both cases the log returned is \<open>w1\<close>, so no request was made
  for the remaining groups.
\<close>

theorem searchGroups_error_discipline:
  assumes "sc w ''GET'' (Sprintf (appsByGroupIDRoute (adminBaseURL L)) [groupID])
             \<lparr>Body = None, Header = None\<rparr> = Inr res"
    and "w1 = w @ [Executed ''GET'' (Sprintf (appsByGroupIDRoute (adminBaseURL L)) [groupID])
                     \<lparr>Body = None, Header = None\<rparr> (Inr res), Closed (length w)]"
  shows "(StatusCode res = 404 \<longrightarrow>
            fetchAppsByGroupID L sc groupID w = (([], None), w1)
            \<and> searchGroups L sc clientAppID (groupID # groupIDs) w
                = searchGroups L sc clientAppID groupIDs w1)
       \<and> (StatusCode res \<noteq> 200 \<and> StatusCode res \<noteq> 404 \<longrightarrow>
            searchGroups L sc clientAppID (groupID # groupIDs) w
              = (Inr (None, Some (UnmarshalReader (Decode_ErrStitchResponse L) (ResBody res))), w1))
       \<and> (\<forall>err. StatusCode res = 200 \<and> Decode_Apps L (ResBody res) = Inl err \<longrightarrow>
            searchGroups L sc clientAppID (groupID # groupIDs) w
              = (Inr (None, Some (External err)), w1))
       \<and> (failure (ResBody res) = None \<longrightarrow>
            (\<exists>esr. UnmarshalReader (Decode_ErrStitchResponse L) (ResBody res) = StitchResponse esr))"
  using assms UnmarshalReader_readable [of "ResBody res" "Decode_ErrStitchResponse L"]
  by (auto simp: fetchAppsByGroupID_def ExecuteRequest_def Close_def)

theorem searchGroups_error_discipline_witness:
  "searchGroups sampleLibrary (sampleClient []) ''x'' [''a'', ''b''] [] =
     (Inr (Some \<lparr>ClientAppID = ''x''\<rparr>, None),
      [Executed ''GET'' ''/api/admin/v3.0/groups/a/apps'' \<lparr>Body = None, Header = None\<rparr>
         (Inr \<lparr>StatusCode = 404, Status = ''404 Not Found'', ResHeader = [],
                ResBody = \<lparr>content = ''no such group'', failure = None\<rparr>\<rparr>),
       Closed 0,
       Executed ''GET'' ''/api/admin/v3.0/groups/b/apps'' \<lparr>Body = None, Header = None\<rparr>
         (Inr \<lparr>StatusCode = 200, Status = ''200 OK'', ResHeader = [],
                ResBody = \<lparr>content = ''yx'', failure = None\<rparr>\<rparr>),
       Closed 2])
   \<and> searchGroups sampleLibrary (sampleClient []) ''x'' [''d'', ''b''] [] =
     (Inr (None, Some (StitchResponse \<lparr>data = \<lparr>Error = ''boom''\<rparr>\<rparr>)),
      [Executed ''GET'' ''/api/admin/v3.0/groups/d/apps'' \<lparr>Body = None, Header = None\<rparr>
         (Inr \<lparr>StatusCode = 500, Status = ''500 Internal Server Error'', ResHeader = [],
                ResBody = \<lparr>content = boom, failure = None\<rparr>\<rparr>),
       Closed 0])"
proof -
  have a: "sampleClient [] [] ''GET'' (Sprintf (appsByGroupIDRoute (adminBaseURL sampleLibrary)) [''a''])
             \<lparr>Body = None, Header = None\<rparr>
           = Inr \<lparr>StatusCode = 404, Status = ''404 Not Found'', ResHeader = [],
                  ResBody = \<lparr>content = ''no such group'', failure = None\<rparr>\<rparr>"
    and d: "sampleClient [] [] ''GET'' (Sprintf (appsByGroupIDRoute (adminBaseURL sampleLibrary)) [''d''])
             \<lparr>Body = None, Header = None\<rparr>
           = Inr \<lparr>StatusCode = 500, Status = ''500 Internal Server Error'', ResHeader = [],
                  ResBody = \<lparr>content = boom, failure = None\<rparr>\<rparr>"
    by (simp_all add: sample_simps sample_apps)
  show ?thesis
    using
      searchGroups_error_discipline
        [where sc = "sampleClient []" and w = "[]" and L = sampleLibrary and clientAppID = "''x''"
           and groupIDs = "[''b'']", OF a refl]
      searchGroups_error_discipline
        [where sc = "sampleClient []" and w = "[]" and L = sampleLibrary and clientAppID = "''x''"
           and groupIDs = "[''b'']", OF d refl]
    by (simp add: sample_simps apps_url sample_fetch sample_boom)
qed

subsection \<open>Response bodies\<close>

lemma closes_fetchAppsByGroupID: "closesItsBodies w (snd (fetchAppsByGroupID L sc g w)) []"
  by (auto simp: fetchAppsByGroupID_def ExecuteRequest_def Close_def closesItsBodies_def Let_def
      split: sum.splits)

lemma closes_Authenticate: "closesItsBodies w (snd (Authenticate L sc p w)) []"
  by (auto simp: Authenticate_def ExecuteRequest_def Close_def closesItsBodies_def Let_def
      split: sum.splits)

lemma closes_Import: "closesItsBodies w (snd (Import L sc g a d s w)) []"
  by (auto simp: Import_def invokeImportRoute_def ExecuteRequest_def Close_def closesItsBodies_def
      Let_def split: sum.splits)

lemma closes_Diff: "closesItsBodies w (snd (Diff L sc g a d s w)) []"
  by (auto simp: Diff_def invokeImportRoute_def ExecuteRequest_def Close_def closesItsBodies_def
      Let_def split: sum.splits)

lemma closes_Export:
  "closesItsBodies w (snd (Export L sc g a w))
     (case fst (snd (fst (Export L sc g a w))) of None \<Rightarrow> [] | Some (k, body) \<Rightarrow> [k])"
  by (auto simp: Export_def ExecuteRequest_def Close_def closesItsBodies_def Let_def
      split: sum.splits)

lemma Export_stream_iff:
  "fst (snd (fst (Export L sc g a w))) \<noteq> None \<longleftrightarrow> snd (snd (fst (Export L sc g a w))) = None"
  by (auto simp: Export_def ExecuteRequest_def Let_def errExportMissingFilename_def
      split: sum.splits)

lemma closes_searchGroups: "closesItsBodies w (snd (searchGroups L sc cid gs w)) []"
proof (induction gs arbitrary: w)
  case Nil
  show ?case by (simp add: closesItsBodies_refl)
next
  case (Cons g gs)
  have step: "closesItsBodies w (snd (fetchAppsByGroupID L sc g w)) []"
    by (rule closes_fetchAppsByGroupID)
  show ?case
  proof (cases "fetchAppsByGroupID L sc g w")
    case (Pair r w1)
    with step have w1: "closesItsBodies w w1 []" by simp
    from Cons.IH [of w1] have "closesItsBodies w (snd (searchGroups L sc cid gs w1)) []"
      using closesItsBodies_trans [OF w1] by fastforce
    with w1 Pair show ?thesis
      by (auto split: prod.splits option.splits sum.splits)
  qed
qed

lemma closes_FetchAppByClientAppID:
  "closesItsBodies w (snd (FetchAppByClientAppID L sc cid w)) []"
proof (cases "sc w ''GET'' (userProfileRoute (adminBaseURL L)) \<lparr>Body = None, Header = None\<rparr>")
  case (Inl err)
  then show ?thesis
    by (simp add: FetchAppByClientAppID_def ExecuteRequest_def closesItsBodies_def)
next
  case (Inr res)
  let ?w1 = "w @ [Executed ''GET'' (userProfileRoute (adminBaseURL L))
                    \<lparr>Body = None, Header = None\<rparr> (Inr res)]"
  have a: "closesItsBodies w ?w1 [length w]"
    by (simp add: closesItsBodies_def)
  have b: "closesItsBodies ?w1 (snd (searchGroups L sc cid gs ?w1)) []" for gs
    by (rule closes_searchGroups)
  have c: "closesItsBodies w (Close (length w) (snd (searchGroups L sc cid gs ?w1))) []" for gs
    using closesItsBodies_trans [OF a b] by (simp add: closesItsBodies_Close)
  have d: "closesItsBodies w (Close (length w) ?w1) []"
    using a by (rule closesItsBodies_Close)
  show ?thesis
    using Inr c d
    by (auto simp: FetchAppByClientAppID_def ExecuteRequest_def split: sum.splits prod.splits)
       (metis snd_conv)
qed

text \<open>
  Claim C9. Whatever the transport and the decoders do, \<open>Authenticate\<close>, \<open>Import\<close>,
  \<open>Diff\<close>, \<open>fetchAppsByGroupID\<close> and \<open>FetchAppByClientAppID\<close> (a run that panics
  included) return a log in which every response body obtained during the call has been
  closed, once. \<open>Export\<close> does the same except for the body it returns: it returns a
  stream exactly when it returns no error, and that stream alone is left open.
\<close>

theorem bodies_closed:
  "closesItsBodies w (snd (Authenticate L sc authProvider w)) []
   \<and> closesItsBodies w (snd (Import L sc groupID appID appData strategy w)) []
   \<and> closesItsBodies w (snd (Diff L sc groupID appID appData strategy w)) []
   \<and> closesItsBodies w (snd (fetchAppsByGroupID L sc groupID w)) []
   \<and> closesItsBodies w (snd (FetchAppByClientAppID L sc clientAppID w)) []
   \<and> (case Export L sc groupID appID w of
        ((filename, stream, err), w') \<Rightarrow>
          closesItsBodies w w' (case stream of None \<Rightarrow> [] | Some (k, body) \<Rightarrow> [k])
          \<and> (stream \<noteq> None \<longleftrightarrow> err = None))"
proof -
  obtain filename stream err w' where
    e: "Export L sc groupID appID w = ((filename, stream, err), w')"
    by (metis prod.exhaust)
  have "closesItsBodies w w' (case stream of None \<Rightarrow> [] | Some (k, body) \<Rightarrow> [k])"
    using closes_Export [of w L sc groupID appID] by (simp add: e)
  moreover have "stream \<noteq> None \<longleftrightarrow> err = None"
    using Export_stream_iff [of L sc groupID appID w] by (simp add: e)
  ultimately show ?thesis
    by (simp add: e closes_Authenticate closes_Import closes_Diff closes_fetchAppsByGroupID
        closes_FetchAppByClientAppID)
qed

lemma sample_run:
  "FetchAppByClientAppID sampleLibrary (sampleClient ''ab'') ''x'' [] =
     (Inr (Some \<lparr>ClientAppID = ''x''\<rparr>, None),
      [Executed ''GET'' ''/api/admin/v3.0/auth/profile'' \<lparr>Body = None, Header = None\<rparr>
         (Inr \<lparr>StatusCode = 200, Status = ''200 OK'', ResHeader = [],
                ResBody = \<lparr>content = ''ab'', failure = None\<rparr>\<rparr>),
       Executed ''GET'' ''/api/admin/v3.0/groups/a/apps'' \<lparr>Body = None, Header = None\<rparr>
         (Inr \<lparr>StatusCode = 404, Status = ''404 Not Found'', ResHeader = [],
                ResBody = \<lparr>content = ''no such group'', failure = None\<rparr>\<rparr>),
       Closed 1,
       Executed ''GET'' ''/api/admin/v3.0/groups/b/apps'' \<lparr>Body = None, Header = None\<rparr>
         (Inr \<lparr>StatusCode = 200, Status = ''200 OK'', ResHeader = [],
                ResBody = \<lparr>content = ''yx'', failure = None\<rparr>\<rparr>),
       Closed 3, Closed 0])"
proof -
  let ?res = "\<lparr>StatusCode = 200, Status = ''200 OK'', ResHeader = [],
               ResBody = \<lparr>content = ''ab'', failure = None\<rparr>\<rparr>"
  have p: "sampleClient ''ab'' [] ''GET'' (userProfileRoute (adminBaseURL sampleLibrary))
             \<lparr>Body = None, Header = None\<rparr> = Inr ?res"
    by (simp add: sample_simps sample_profile)
  have q: "StatusCode ?res = 200"
    by simp
  have r: "Decode_UserProfile sampleLibrary (ResBody ?res) = Inr [''a'', ''b'']"
    by (simp add: sample_decoders)
  show ?thesis
    unfolding FetchAppByClientAppID_profile
      [where sc = "sampleClient ''ab''" and w = "[]" and L = sampleLibrary, OF p q r]
    by (simp add: sample_simps userProfileRoute_def sample_fetch)
qed

theorem bodies_closed_witness:
  "closesItsBodies [] (snd (FetchAppByClientAppID sampleLibrary (sampleClient ''ab'') ''x'' [])) []
   \<and> closed (snd (FetchAppByClientAppID sampleLibrary (sampleClient ''ab'') ''x'' [])) = [1, 3, 0]
   \<and> opened (snd (FetchAppByClientAppID sampleLibrary (sampleClient ''ab'') ''x'' [])) = [0, 1, 3]"
  using bodies_closed [of "[]" sampleLibrary "sampleClient ''ab''" _ _ _ _ _ "''x''"]
  by (simp add: sample_run opened_def)

end
